theory Spec2Isabelle
  imports Main "HOL-Library.Sublist" "HOL-Library.Word"
begin

section \<open>Strings\<close>

text \<open>
  A Python \<open>str\<close> is a sequence of code points. The model uses \<open>string\<close>, whose
  characters are the code points 0 to 255 (ASCII and Latin-1); the recognizer's English
  model produces ASCII words only. Code points above 255 are not represented.
\<close>

text \<open>
  \<open>str.lower()\<close>, character by character. Among the code points below 256 the cased
  upper-case letters are A to Z (65 to 90) and the Latin-1 capitals 192 to 222 without the
  multiplication sign 215; each has its lower-case partner 32 places further on, which is
  the same code point with bit 5 set.
\<close>

definition isupper :: "char \<Rightarrow> bool" where
  "isupper c =
     (let n = (of_char c :: nat) in
      (65 \<le> n \<and> n \<le> 90) \<or> (192 \<le> n \<and> n \<le> 222 \<and> n \<noteq> 215))"

definition lower_char :: "char \<Rightarrow> char" where
  "lower_char c =
     (if isupper c
      then (case c of Char b0 b1 b2 b3 b4 b5 b6 b7 \<Rightarrow> Char b0 b1 b2 b3 b4 True b6 b7)
      else c)"

definition lower :: "string \<Rightarrow> string" where
  "lower s = map lower_char s"

text \<open>\<open>s.startswith(p)\<close>.\<close>

definition startswith :: "string \<Rightarrow> string \<Rightarrow> bool" where
  "startswith s p = (take (length p) s = p)"

text \<open>\<open>p in s\<close> for two strings: \<open>p\<close> occurs in \<open>s\<close> as a contiguous block.\<close>

fun str_in :: "string \<Rightarrow> string \<Rightarrow> bool" where
  "str_in p [] = (p = [])"
| "str_in p (c # cs) = (startswith (c # cs) p \<or> str_in p cs)"

text \<open>
  \<open>str.isspace()\<close> on one code point below 256: tab, line feed, vertical tab, form feed,
  carriage return, the four separators 28 to 31, space, next-line (133) and the
  no-break space (160).
\<close>

definition isspace :: "char \<Rightarrow> bool" where
  "isspace c =
     (let n = (of_char c :: nat) in
      (9 \<le> n \<and> n \<le> 13) \<or> (28 \<le> n \<and> n \<le> 32) \<or> n = 133 \<or> n = 160)"

text \<open>\<open>str.strip()\<close>: leading and trailing white space removed.\<close>

definition strip :: "string \<Rightarrow> string" where
  "strip s = rev (dropWhile isspace (rev (dropWhile isspace s)))"

section \<open>Numbers in text\<close>

text \<open>One decimal digit, for \<open>d < 10\<close>.\<close>

definition digit :: "nat \<Rightarrow> char" where
  "digit d = ''0123456789'' ! d"

text \<open>The \<open>%02d\<close> of \<open>strftime\<close>'s \<open>%I\<close> and \<open>%M\<close>, for \<open>n < 100\<close>.\<close>

definition two_digits :: "nat \<Rightarrow> string" where
  "two_digits n = [digit (n div 10), digit (n mod 10)]"

text \<open>The decimal numeral an f-string writes for an integer.\<close>

function str_nat :: "nat \<Rightarrow> string" where
  "str_nat n = (if n < 10 then [digit n] else str_nat (n div 10) @ [digit (n mod 10)])"
  by pat_completeness auto
termination
  by (relation "measure (\<lambda>n. n)") auto

declare str_nat.simps [simp del]

definition str_int :: "int \<Rightarrow> string" where
  "str_int i = (if i < 0 then ''-'' @ str_nat (nat (- i)) else str_nat (nat i))"

text \<open>
  \<open>datetime.datetime.now().strftime('%I:%M %p')\<close> from the hour (0 to 23) and the minute
  (0 to 59) of the clock reading: the hour on the 12-hour dial with two digits, the minute
  with two digits, and the English day-half marker of the C locale.
\<close>

definition strftime_I_M_p :: "nat \<Rightarrow> nat \<Rightarrow> string" where
  "strftime_I_M_p h m =
     two_digits (if h mod 12 = 0 then 12 else h mod 12) @ '':'' @ two_digits m @ '' '' @
     (if h < 12 then ''AM'' else ''PM'')"

section \<open>Program state\<close>

text \<open>The three \<open>messagebox\<close> calls of the program, each with its title and message.\<close>

datatype dialog =
    Showerror string string
  | Showinfo string string
  | Askokcancel string string

type_synonym byte = "8 word"

text \<open>
  The module's globals, the fields of \<open>CuteAssistantGUI\<close> and what the program has done to
  the outside: \<open>vosk_model\<close> is whether \<open>Model(MODEL_PATH)\<close> loaded (otherwise the
  global is \<open>None\<close>), \<open>windows\<close> the platform, \<open>listening_flag\<close> the
  \<open>threading.Event\<close>, \<open>text_q\<close> the queue of recognized texts (oldest first),
  \<open>tasks\<close> the task list, \<open>awaiting_task\<close> the window's flag, \<open>transcript\<close> the texts
  inserted into the transcript box, \<open>listen_btn\<close> the listen button's label and colour,
  \<open>spoken\<close> the texts handed to \<open>speak\<close>, \<open>dialogs\<close> the message boxes shown,
  \<open>screenshots\<close> the paths given to \<open>pyautogui.screenshot\<close>, \<open>browser\<close> the URLs given
  to \<open>webbrowser.open\<close>, \<open>tasks_txt\<close> the bytes of the file \<open>tasks.txt\<close> in the
  working directory (\<open>None\<close>: no such file) and \<open>destroyed\<close> whether the window has been
  destroyed.
\<close>

record world =
  vosk_model :: bool
  windows :: bool
  listening_flag :: bool
  text_q :: "string list"
  tasks :: "string list"
  awaiting_task :: bool
  transcript :: "string list"
  listen_btn :: "string \<times> string"
  spoken :: "string list"
  dialogs :: "dialog list"
  screenshots :: "string list"
  browser :: "string list"
  tasks_txt :: "byte list option"
  destroyed :: bool

text \<open>
  What the outside answers while one utterance is handled: the clock reading
  (\<open>now_hour\<close>, \<open>now_minute\<close>), \<open>int(time.time())\<close>, \<open>os.getcwd()\<close>, whether
  \<open>pyautogui.screenshot\<close> raises, and the user's answer to the quit dialog.
\<close>

record env =
  now_hour :: nat
  now_minute :: nat
  unix_time :: int
  getcwd :: string
  screenshot_raises :: bool
  quit_ok :: bool

text \<open>The state at the start of \<open>mainloop\<close>, after \<open>__init__\<close>.\<close>

definition init :: "bool \<Rightarrow> bool \<Rightarrow> world" where
  "init model win =
     \<lparr> vosk_model = model, windows = win, listening_flag = False, text_q = [],
       tasks = [], awaiting_task = False,
       transcript = [''Assistant: Ready. Click Start Listening to begin.\<newline>''],
       listen_btn = (''Start Listening'', ''#FFDFE4''), spoken = [], dialogs = [],
       screenshots = [], browser = [], tasks_txt = None, destroyed = False \<rparr>"

section \<open>Speech and transcript\<close>

text \<open>\<open>speak(text)\<close> starts a thread that says the text; the caller goes on at once.\<close>

definition speak :: "string \<Rightarrow> world \<Rightarrow> world" where
  "speak text s = s\<lparr>spoken := spoken s @ [text]\<rparr>"

text \<open>
  \<open>append_transcript(text)\<close> on a live window. On a destroyed window its first Tk call
  raises \<open>TclError\<close>; the callers below say where that exception goes.
\<close>

definition append_transcript :: "string \<Rightarrow> world \<Rightarrow> world" where
  "append_transcript text s = s\<lparr>transcript := transcript s @ [text]\<rparr>"

section \<open>Command handling\<close>

datatype result_state = Awaiting_task | Done | Exit

datatype exn = TclError | ScreenshotError

text \<open>\<open>os.path.join(a, b)\<close> for a relative \<open>b\<close> without a drive.\<close>

definition path_join :: "bool \<Rightarrow> string \<Rightarrow> string \<Rightarrow> string" where
  "path_join win a b =
     (if win
      then (if a = [] \<or> last a \<in> {CHR 0x5C, CHR ''/'', CHR '':''} then a @ b
            else a @ [CHR 0x5C] @ b)
      else (if a = [] \<or> last a = CHR ''/'' then a @ b else a @ ''/'' @ b))"

text \<open>The loop \<open>for t in tasks\<close> of the list-tasks branch.\<close>

fun for_each_task :: "string list \<Rightarrow> world \<Rightarrow> world" where
  "for_each_task [] s = s"
| "for_each_task (t # ts) s =
     for_each_task ts (speak t (append_transcript (''Assistant: '' @ t @ ''\<newline>'') s))"

text \<open>
  \<open>handle_command(cmd, self.append_transcript)\<close>. The result is the first component of
  the returned pair (the second is always \<open>None\<close>), or the exception that leaves the
  function, together with the state reached. On a destroyed window the echo of the
  command, the first Tk call, raises; a failing screenshot raises after the echo.
\<close>

definition handle_command :: "env \<Rightarrow> string \<Rightarrow> world \<Rightarrow> (exn + result_state) \<times> world" where
  "handle_command e cmd0 s0 =
     (let cmd = lower cmd0 in
      if destroyed s0 then (Inl TclError, s0)
      else
        let s = append_transcript (''You: '' @ cmd @ ''\<newline>'') s0 in
        if str_in ''add task'' cmd \<or> startswith cmd ''add'' then
          (Inr Awaiting_task,
           append_transcript ''Assistant: What is the task?\<newline>''
             (speak ''What is the task?'' s))
        else if str_in ''list tasks'' cmd \<or> str_in ''show tasks'' cmd then
          (Inr Done,
           if tasks s \<noteq> [] then for_each_task (tasks s) s
           else speak ''You have no tasks.''
                  (append_transcript ''Assistant: You have no tasks.\<newline>'' s))
        else if str_in ''screenshot'' cmd \<or> str_in ''take a screenshot'' cmd then
          (let path = path_join (windows s) (getcwd e)
                        (''screenshot_'' @ str_int (unix_time e) @ ''.png'') in
           if screenshot_raises e then (Inl ScreenshotError, s)
           else
             (Inr Done,
              speak ''Screenshot taken for you.''
                (append_transcript (''Assistant: Screenshot saved to '' @ path @ ''\<newline>'')
                   (s\<lparr>screenshots := screenshots s @ [path]\<rparr>))))
        else if str_in ''open chrome'' cmd \<or> str_in ''open browser'' cmd then
          (Inr Done,
           (speak ''Opening browser''
              (append_transcript ''Assistant: Opening browser.\<newline>'' s))
           \<lparr>browser := browser s @ [''https://www.google.com'']\<rparr>)
        else if str_in ''time'' cmd \<or> str_in ''what's the time'' cmd
                \<or> str_in ''current time'' cmd then
          (let now = strftime_I_M_p (now_hour e) (now_minute e) in
           (Inr Done,
            speak (''The time is '' @ now)
              (append_transcript (''Assistant: The time is '' @ now @ ''\<newline>'') s)))
        else if str_in ''exit'' cmd \<or> str_in ''quit'' cmd \<or> str_in ''goodbye'' cmd then
          (Inr Exit,
           speak ''Goodbye'' (append_transcript ''Assistant: Goodbye!\<newline>'' s))
        else
          (Inr Done,
           speak ''I didn't understand that. Try again.''
             (append_transcript ''Assistant: I didn't understand that. Try again.\<newline>'' s)))"

section \<open>The window's operations\<close>

text \<open>\<open>on_close\<close>, with the user's answer to \<open>askokcancel\<close>.\<close>

definition on_close :: "bool \<Rightarrow> world \<Rightarrow> world" where
  "on_close ok s =
     (let s1 = s\<lparr>dialogs := dialogs s @ [Askokcancel ''Quit'' ''Do you want to quit?'']\<rparr> in
      if ok then s1\<lparr>listening_flag := False, destroyed := True\<rparr> else s1)"

definition stop_listen :: "world \<Rightarrow> world" where
  "stop_listen s =
     append_transcript ''Assistant: Stopped listening.\<newline>''
       (s\<lparr>listening_flag := False, listen_btn := (''Start Listening'', ''#FFDFE4'')\<rparr>)"

definition toggle_listen :: "world \<Rightarrow> world" where
  "toggle_listen s =
     (if \<not> vosk_model s then
        s\<lparr>dialogs := dialogs s @
             [Showerror ''Model missing''
                ''VOSK model not found. Put model folder next to script.'']\<rparr>
      else if listening_flag s then stop_listen s
      else
        append_transcript ''Assistant: Listening...\<newline>''
          (s\<lparr>listening_flag := True, listen_btn := (''Listening...'', ''#DFF7E0'')\<rparr>))"

subsection \<open>Saving the tasks\<close>

text \<open>
  The UTF-8 encoding of a code point below 256: one byte below 128, otherwise a lead
  byte and one continuation byte.
\<close>

definition utf8_char :: "char \<Rightarrow> byte list" where
  "utf8_char c =
     (let n = (of_char c :: nat) in
      if n < 128 then [of_nat n] else [of_nat (192 + n div 64), of_nat (128 + n mod 64)])"

text \<open>
  \<open>f.write(text)\<close> on a file opened with \<open>open(..., 'w', encoding='utf-8')\<close>: text mode
  writes \<open>os.linesep\<close> for every line feed (carriage return and line feed on Windows),
  then encodes.
\<close>

definition newline_char :: "bool \<Rightarrow> char \<Rightarrow> string" where
  "newline_char win c = (if win \<and> c = CHR 0x0A then [CHR 0x0D, CHR 0x0A] else [c])"

definition file_write :: "bool \<Rightarrow> string \<Rightarrow> byte list" where
  "file_write win text = concat (map utf8_char (concat (map (newline_char win) text)))"

text \<open>The loop \<open>for t in tasks: f.write(t + '\n')\<close>, from the bytes written so far.\<close>

fun write_tasks :: "bool \<Rightarrow> string list \<Rightarrow> byte list \<Rightarrow> byte list" where
  "write_tasks win [] f = f"
| "write_tasks win (t # ts) f = write_tasks win ts (f @ file_write win (t @ ''\<newline>''))"

text \<open>
  What the file system does with the attempt: it goes through, or \<open>open\<close>, a write or the
  closing of the file raises an exception with message \<open>str(e)\<close>, which leaves some
  contents (or no file) behind.
\<close>

datatype io_result = Io_ok | Io_raises string "byte list option"

definition save_tasks :: "io_result \<Rightarrow> world \<Rightarrow> world" where
  "save_tasks io s =
     (case io of
        Io_ok \<Rightarrow>
          s\<lparr>tasks_txt := Some (write_tasks (windows s) (tasks s) []),
            dialogs := dialogs s @ [Showinfo ''Saved'' ''Tasks saved to tasks.txt'']\<rparr>
      | Io_raises msg left \<Rightarrow>
          s\<lparr>tasks_txt := left, dialogs := dialogs s @ [Showerror ''Error'' msg]\<rparr>)"

subsection \<open>Polling the text queue\<close>

text \<open>
  The body of the \<open>while\<close> loop of \<open>check_text_queue\<close> for the text \<open>txt\<close> just taken
  from the queue: the exception that leaves the body, if any, and the state reached.
  On a destroyed window \<open>append_transcript\<close> raises, after the task has been appended.
\<close>

definition check_text_queue_body :: "env \<Rightarrow> string \<Rightarrow> world \<Rightarrow> exn option \<times> world" where
  "check_text_queue_body e txt s =
     (if awaiting_task s then
        (let s1 = s\<lparr>tasks := tasks s @ [txt]\<rparr> in
         if destroyed s1 then (Some TclError, s1)
         else
           (None,
            (speak ''Task added''
               (append_transcript (''Assistant: Added task: '' @ txt @ ''\<newline>'') s1))
            \<lparr>awaiting_task := False\<rparr>))
      else
        (case handle_command e txt s of
           (Inl x, s1) \<Rightarrow> (Some x, s1)
         | (Inr Awaiting_task, s1) \<Rightarrow> (None, s1\<lparr>awaiting_task := True\<rparr>)
         | (Inr Exit, s1) \<Rightarrow> (None, on_close (quit_ok e) s1)
         | (Inr Done, s1) \<Rightarrow> (None, s1)))"

text \<open>
  The loop \<open>while not text_q.empty()\<close> inside \<open>try\<close>: the texts are taken oldest first;
  \<open>es i\<close> is what the outside answers while the \<open>i\<close>-th of them is handled. An exception
  ends the loop (it is caught and printed) and the texts not yet taken stay queued.
\<close>

fun drain :: "(nat \<Rightarrow> env) \<Rightarrow> string list \<Rightarrow> world \<Rightarrow> string list \<times> world" where
  "drain es [] s = ([], s)"
| "drain es (txt # q) s =
     (case check_text_queue_body (es 0) txt s of
        (None, s1) \<Rightarrow> drain (\<lambda>i. es (Suc i)) q s1
      | (Some x, s1) \<Rightarrow> (q, s1))"

definition check_text_queue :: "(nat \<Rightarrow> env) \<Rightarrow> world \<Rightarrow> world" where
  "check_text_queue es s = (case drain es (text_q s) s of (q, s1) \<Rightarrow> s1\<lparr>text_q := q\<rparr>)"

section \<open>The recognition worker\<close>

text \<open>
  What the recognizer makes of one audio buffer: \<open>AcceptWaveform\<close> returns false and
  only an interim hypothesis exists, or it returns true and \<open>Result()\<close> is a JSON object
  whose \<open>text\<close> entry, if present, is the finalized text.
\<close>

datatype waveform = Partial string | Final "string option"

text \<open>One iteration of the loop of \<open>stt_worker\<close>, once a buffer has been taken.\<close>

definition stt_worker_body :: "waveform \<Rightarrow> string list \<Rightarrow> string list" where
  "stt_worker_body w q =
     (case w of
        Partial hyp \<Rightarrow> q
      | Final res \<Rightarrow>
          (let txt = strip (case res of None \<Rightarrow> [] | Some t \<Rightarrow> t) in
           if txt \<noteq> [] then q @ [txt] else q))"

text \<open>The iterations for a sequence of buffers, in order.\<close>

fun stt_worker :: "waveform list \<Rightarrow> string list \<Rightarrow> string list" where
  "stt_worker [] q = q"
| "stt_worker (w # ws) q = stt_worker ws (stt_worker_body w q)"

section \<open>The running program\<close>

text \<open>
  The events of a run: the three buttons, the timer's poll, the window's close button,
  and an audio buffer reaching the worker. Without a model \<open>recognizer\<close> is \<open>None\<close> and
  the worker cannot enqueue anything. After the window is destroyed the main loop
  returns and the process ends.
\<close>

datatype event =
    Toggle_listen
  | Stop_listen
  | Save_tasks io_result
  | Poll "nat \<Rightarrow> env"
  | Close bool
  | Audio waveform

definition step :: "event \<Rightarrow> world \<Rightarrow> world" where
  "step ev s =
     (if destroyed s then s
      else
        (case ev of
           Toggle_listen \<Rightarrow> toggle_listen s
         | Stop_listen \<Rightarrow> stop_listen s
         | Save_tasks io \<Rightarrow> save_tasks io s
         | Poll es \<Rightarrow> check_text_queue es s
         | Close ok \<Rightarrow> on_close ok s
         | Audio w \<Rightarrow>
             (if vosk_model s then s\<lparr>text_q := stt_worker_body w (text_q s)\<rparr> else s)))"

fun run :: "event list \<Rightarrow> world \<Rightarrow> world" where
  "run [] s = s"
| "run (ev # evs) s = run evs (step ev s)"

section \<open>The specification's notions\<close>

subsection \<open>The command table\<close>

text \<open>
  The dispatcher as the specification describes it: a fixed table of rows, each with its
  set of patterns, tried in order against the utterance without regard to case; the first
  row with a matching pattern gives the effect, and no row gives the not-understood
  response.
\<close>

datatype pattern = Contains string | Starts_with string

datatype row =
  Add_task_row | List_tasks_row | Screenshot_row | Open_browser_row | Time_row | Exit_row

definition spec_table :: "(pattern list \<times> row) list" where
  "spec_table =
     [([Contains ''add task'', Starts_with ''add''], Add_task_row),
      ([Contains ''list tasks'', Contains ''show tasks''], List_tasks_row),
      ([Contains ''screenshot'', Contains ''take a screenshot''], Screenshot_row),
      ([Contains ''open chrome'', Contains ''open browser''], Open_browser_row),
      ([Contains ''time'', Contains ''what's the time'', Contains ''current time''], Time_row),
      ([Contains ''exit'', Contains ''quit'', Contains ''goodbye''], Exit_row)]"

fun spec_matches :: "string \<Rightarrow> pattern \<Rightarrow> bool" where
  "spec_matches utt (Contains p) = str_in (lower p) (lower utt)"
| "spec_matches utt (Starts_with p) = startswith (lower utt) (lower p)"

definition spec_first_match :: "string \<Rightarrow> row option" where
  "spec_first_match utt =
     map_option snd (find (\<lambda>(ps, r). list_ex (spec_matches utt) ps) spec_table)"

text \<open>A response that is both displayed, as the assistant's line, and spoken.\<close>

definition say_and_show :: "string \<Rightarrow> world \<Rightarrow> world" where
  "say_and_show msg s =
     s\<lparr>transcript := transcript s @ [''Assistant: '' @ msg @ ''\<newline>''],
       spoken := spoken s @ [msg]\<rparr>"

fun spec_effect :: "env \<Rightarrow> row option \<Rightarrow> world \<Rightarrow> (exn + result_state) \<times> world" where
  "spec_effect e (Some Add_task_row) s =
     (Inr Awaiting_task, say_and_show ''What is the task?'' s)"
| "spec_effect e (Some List_tasks_row) s =
     (Inr Done,
      if tasks s = [] then say_and_show ''You have no tasks.'' s
      else s\<lparr>transcript := transcript s @
                 map (\<lambda>t. ''Assistant: '' @ t @ ''\<newline>'') (tasks s),
             spoken := spoken s @ tasks s\<rparr>)"
| "spec_effect e (Some Screenshot_row) s =
     (let path = path_join (windows s) (getcwd e)
                   (''screenshot_'' @ str_int (unix_time e) @ ''.png'') in
      if screenshot_raises e then (Inl ScreenshotError, s)
      else
        (Inr Done,
         s\<lparr>screenshots := screenshots s @ [path],
           transcript := transcript s @
             [''Assistant: Screenshot saved to '' @ path @ ''\<newline>''],
           spoken := spoken s @ [''Screenshot taken for you.'']\<rparr>))"
| "spec_effect e (Some Open_browser_row) s =
     (Inr Done,
      s\<lparr>browser := browser s @ [''https://www.google.com''],
        transcript := transcript s @ [''Assistant: Opening browser.\<newline>''],
        spoken := spoken s @ [''Opening browser'']\<rparr>)"
| "spec_effect e (Some Time_row) s =
     (Inr Done,
      say_and_show (''The time is '' @ strftime_I_M_p (now_hour e) (now_minute e)) s)"
| "spec_effect e (Some Exit_row) s =
     (Inr Exit,
      s\<lparr>transcript := transcript s @ [''Assistant: Goodbye!\<newline>''],
        spoken := spoken s @ [''Goodbye'']\<rparr>)"
| "spec_effect e None s =
     (Inr Done, say_and_show ''I didn't understand that. Try again.'' s)"

text \<open>The transcript first shows what was heard, in lower case; then the row acts.\<close>

definition spec_dispatch :: "env \<Rightarrow> string \<Rightarrow> world \<Rightarrow> (exn + result_state) \<times> world" where
  "spec_dispatch e utt s =
     spec_effect e (spec_first_match utt)
       (s\<lparr>transcript := transcript s @ [''You: '' @ lower utt @ ''\<newline>'']\<rparr>)"

subsection \<open>Reading a 12-hour clock string\<close>

definition digit_value :: "char \<Rightarrow> nat option" where
  "digit_value c = (if c \<in> set ''0123456789'' then Some (of_char c - 48) else None)"

text \<open>
  A 12-hour \<open>HH:MM AM\<close> or \<open>HH:MM PM\<close> string read back as the hour (0 to 23) and the
  minute of the day; \<open>None\<close> for any other string.
\<close>

fun read_12_hour_clock :: "string \<Rightarrow> (nat \<times> nat) option" where
  "read_12_hour_clock [h1, h0, colon, m1, m0, space, half, em] =
     (case (digit_value h1, digit_value h0, digit_value m1, digit_value m0) of
        (Some a, Some b, Some c, Some d) \<Rightarrow>
          (let h12 = 10 * a + b; m = 10 * c + d in
           if colon = CHR '':'' \<and> space = CHR '' '' \<and> em = CHR ''M'' \<and>
              (half = CHR ''A'' \<or> half = CHR ''P'') \<and> 1 \<le> h12 \<and> h12 \<le> 12 \<and> m \<le> 59
           then Some (h12 mod 12 + (if half = CHR ''P'' then 12 else 0), m)
           else None)
      | _ \<Rightarrow> None)"
| "read_12_hour_clock _ = None"

subsection \<open>Reading a saved file\<close>

text \<open>The lines of a text, each ended by a line feed.\<close>

definition lines_of :: "string \<Rightarrow> string list" where
  "lines_of str =
     foldr (\<lambda>c ls. if c = CHR ''\<newline>'' then [] # ls
                    else (case ls of [] \<Rightarrow> [[c]] | l # ls' \<Rightarrow> (c # l) # ls'))
       str []"

text \<open>Decoding UTF-8 to code points below 256; \<open>None\<close> for any other byte sequence.\<close>

fun utf8_decode :: "byte list \<Rightarrow> string option" where
  "utf8_decode [] = Some []"
| "utf8_decode [b] = (if unat b < 128 then Some [char_of (unat b)] else None)"
| "utf8_decode (b # b' # bs) =
     (if unat b < 128 then map_option ((#) (char_of (unat b))) (utf8_decode (b' # bs))
      else if (unat b = 194 \<or> unat b = 195) \<and> 128 \<le> unat b' \<and> unat b' < 192
      then map_option ((#) (char_of (64 * (unat b - 192) + (unat b' - 128)))) (utf8_decode bs)
      else None)"

subsection \<open>The finalized texts of a stream\<close>

text \<open>
  The finalized texts among the recognizer's results, in order; a result without a
  \<open>text\<close> entry counts as the empty text.
\<close>

fun finalized :: "waveform list \<Rightarrow> string list" where
  "finalized [] = []"
| "finalized (Partial hyp # ws) = finalized ws"
| "finalized (Final None # ws) = [] # finalized ws"
| "finalized (Final (Some t) # ws) = t # finalized ws"

section \<open>Sample inputs\<close>

text \<open>A clock reading of 14:05 on a machine where nothing fails and the user agrees to quit.\<close>

definition at_1405 :: env where
  "at_1405 =
     \<lparr> now_hour = 14, now_minute = 5, unix_time = 1700000000, getcwd = ''/home/user'',
       screenshot_raises = False, quit_ok = True \<rparr>"

text \<open>The program just started with its model loaded, and the same after "add task".\<close>

definition started :: world where
  "started = init True False"

definition asked :: world where
  "asked = started\<lparr>awaiting_task := True\<rparr>"

section \<open>Facts about strings and numbers\<close>

lemma lower_char_adds_32: "isupper c \<Longrightarrow> (of_char (lower_char c) :: nat) = of_char c + 32"
  by (cases c) (auto simp: isupper_def lower_char_def Let_def of_bool_def split: if_splits)

lemma startswith_iff: "startswith s p \<longleftrightarrow> (\<exists>b. s = p @ b)"
  unfolding startswith_def by (metis append_eq_conv_conj append_take_drop_id)

lemma str_in_iff: "str_in p s \<longleftrightarrow> (\<exists>a b. s = a @ p @ b)"
proof (induction s)
  case Nil
  show ?case by auto
next
  case (Cons c cs)
  show ?case
  proof
    assume "str_in p (c # cs)"
    then consider "startswith (c # cs) p" | "str_in p cs" by auto
    then show "\<exists>a b. c # cs = a @ p @ b"
    proof cases
      case 1
      then obtain b where "c # cs = p @ b" using startswith_iff by blast
      then have "c # cs = [] @ p @ b" by simp
      then show ?thesis by blast
    next
      case 2
      then obtain a b where "cs = a @ p @ b" using Cons.IH by blast
      then have "c # cs = (c # a) @ p @ b" by simp
      then show ?thesis by blast
    qed
  next
    assume "\<exists>a b. c # cs = a @ p @ b"
    then obtain a b where ab: "c # cs = a @ p @ b" by blast
    show "str_in p (c # cs)"
    proof (cases a)
      case Nil
      then have "startswith (c # cs) p" using ab startswith_iff by auto
      then show ?thesis by simp
    next
      case (Cons x a')
      then have "cs = a' @ p @ b" using ab by simp
      then have "str_in p cs" using Cons.IH by blast
      then show ?thesis by simp
    qed
  qed
qed

lemma lower_patterns:
  "lower ''add task'' = ''add task''" "lower ''add'' = ''add''"
  "lower ''list tasks'' = ''list tasks''" "lower ''show tasks'' = ''show tasks''"
  "lower ''screenshot'' = ''screenshot''" "lower ''take a screenshot'' = ''take a screenshot''"
  "lower ''open chrome'' = ''open chrome''" "lower ''open browser'' = ''open browser''"
  "lower ''time'' = ''time''" "lower ''what's the time'' = ''what's the time''"
  "lower ''current time'' = ''current time''"
  "lower ''exit'' = ''exit''" "lower ''quit'' = ''quit''" "lower ''goodbye'' = ''goodbye''"
  by (simp_all add: lower_def lower_char_def isupper_def)

lemma lower_samples:
  "lower ''Add task: check the TIME'' = ''add task: check the time''"
  "lower ''Hello there'' = ''hello there''"
  "lower ''What's the time'' = ''what's the time''"
  by (simp_all add: lower_def lower_char_def isupper_def)

lemma digit_value_digit: "d < 10 \<Longrightarrow> digit_value (digit d) = Some d"
proof -
  assume "d < 10"
  then have "d \<in> {0, 1, 2, 3, 4, 5, 6, 7, 8, 9}" by auto
  then show ?thesis by (auto simp: digit_value_def digit_def)
qed

lemma read_clock_strftime:
  assumes "h < 24" and "m < 60"
  shows "read_12_hour_clock (strftime_I_M_p h m) = Some (h, m)"
proof -
  let ?h12 = "if h mod 12 = 0 then 12 else h mod 12"
  have h12: "1 \<le> ?h12" "?h12 \<le> 12" by auto
  have d: "digit_value (digit (?h12 div 10)) = Some (?h12 div 10)"
          "digit_value (digit (?h12 mod 10)) = Some (?h12 mod 10)"
          "digit_value (digit (m div 10)) = Some (m div 10)"
          "digit_value (digit (m mod 10)) = Some (m mod 10)"
    using assms by (auto intro!: digit_value_digit)
  have h24: "?h12 mod 12 + (if h < 12 then 0 else 12) = h"
    using assms by (auto simp: mod_if)
  show ?thesis
    using d h12 h24 assms
    by (simp add: strftime_I_M_p_def two_digits_def split: if_splits)
qed

lemma strftime_1405: "strftime_I_M_p 14 5 = ''02:05 PM''"
  by (simp add: strftime_I_M_p_def two_digits_def digit_def)

section \<open>Filling the pending task\<close>

text \<open>
  C1. While \<open>awaiting_task\<close> is set (and the window is alive), whatever utterance the poll
  takes from the queue is appended unchanged, in its original casing, at the end of the
  task list; "Task added" is spoken and the confirmation line enters the transcript; the
  flag is cleared. Nothing else changes and the result depends on neither the command
  patterns nor the outside: an utterance that contains "exit" or "time" closes nothing
  and tells no time.
\<close>

theorem awaiting_task_takes_utterance:
  assumes "awaiting_task s" and "\<not> destroyed s"
  shows "check_text_queue_body e utt s =
           (None,
            s\<lparr>tasks := tasks s @ [utt],
              transcript := transcript s @ [''Assistant: Added task: '' @ utt @ ''\<newline>''],
              spoken := spoken s @ [''Task added''],
              awaiting_task := False\<rparr>)"
  using assms
  by (simp add: check_text_queue_body_def speak_def append_transcript_def)

theorem awaiting_task_takes_utterance_witness:
  "awaiting_task asked \<and> \<not> destroyed asked \<and>
   check_text_queue_body at_1405 ''Exit at lunch Time'' asked =
     (None,
      started
        \<lparr>tasks := [''Exit at lunch Time''],
         transcript := [''Assistant: Ready. Click Start Listening to begin.\<newline>'',
                        ''Assistant: Added task: Exit at lunch Time\<newline>''],
         spoken := [''Task added'']\<rparr>)"
  using awaiting_task_takes_utterance [of asked at_1405 "''Exit at lunch Time''"]
  by (simp add: asked_def started_def init_def)

section \<open>Dispatch in the idle state\<close>

lemma for_each_task_eq:
  "for_each_task ts s =
     s\<lparr>transcript := transcript s @ map (\<lambda>t. ''Assistant: '' @ t @ ''\<newline>'') ts,
       spoken := spoken s @ ts\<rparr>"
  by (induction ts arbitrary: s) (simp_all add: speak_def append_transcript_def)

lemma handle_command_spec_dispatch:
  "\<not> destroyed s \<Longrightarrow> handle_command e utt s = spec_dispatch e utt s"
  by (simp add: handle_command_def spec_dispatch_def spec_first_match_def spec_table_def
      lower_patterns say_and_show_def for_each_task_eq speak_def append_transcript_def Let_def)

lemma spec_first_match_samples:
  "spec_first_match ''Add task: check the TIME'' = Some Add_task_row"
  "spec_first_match ''Hello there'' = None"
  by (simp_all add: spec_first_match_def spec_table_def lower_def lower_char_def isupper_def
      startswith_def)

text \<open>
  C2. On a live window \<open>handle_command\<close> is the specification's dispatcher: after the
  echo of the utterance, exactly the effect of the first row of the table (add task, list
  tasks, screenshot, open browser, time, exit, in this order) one of whose patterns
  matches the utterance, case ignored. Two utterances equal up to case are handled alike;
  an utterance with both "add task" and "time" in it gets the add-task prompt; an
  utterance that matches no row gets the not-understood response and nothing else.
\<close>

theorem dispatch_first_match_wins:
  assumes "\<not> destroyed s"
  shows "handle_command e utt s = spec_dispatch e utt s \<and>
         (lower utt' = lower utt \<longrightarrow> handle_command e utt' s = handle_command e utt s) \<and>
         (str_in ''add task'' (lower utt) \<and> str_in ''time'' (lower utt) \<longrightarrow>
            spec_first_match utt = Some Add_task_row \<and>
            handle_command e utt s =
              (Inr Awaiting_task,
               s\<lparr>transcript := transcript s @
                     [''You: '' @ lower utt @ ''\<newline>'',
                      ''Assistant: What is the task?\<newline>''],
                 spoken := spoken s @ [''What is the task?'']\<rparr>)) \<and>
         (spec_first_match utt = None \<longrightarrow>
            handle_command e utt s =
              (Inr Done,
               s\<lparr>transcript := transcript s @
                     [''You: '' @ lower utt @ ''\<newline>'',
                      ''Assistant: I didn't understand that. Try again.\<newline>''],
                 spoken := spoken s @ [''I didn't understand that. Try again.'']\<rparr>))"
proof -
  have eq: "handle_command e utt s = spec_dispatch e utt s"
    using assms by (rule handle_command_spec_dispatch)
  have ci: "lower utt' = lower utt \<Longrightarrow> handle_command e utt' s = handle_command e utt s"
    by (simp add: handle_command_def)
  have add: "str_in ''add task'' (lower utt) \<Longrightarrow> spec_first_match utt = Some Add_task_row"
    by (simp add: spec_first_match_def spec_table_def lower_patterns)
  show ?thesis
    using eq ci add by (auto simp: spec_dispatch_def say_and_show_def)
qed

theorem dispatch_first_match_wins_witness:
  "\<not> destroyed started \<and>
   handle_command at_1405 ''Add task: check the TIME'' started =
     (Inr Awaiting_task,
      started
        \<lparr>transcript := [''Assistant: Ready. Click Start Listening to begin.\<newline>'',
                        ''You: add task: check the time\<newline>'',
                        ''Assistant: What is the task?\<newline>''],
         spoken := [''What is the task?'']\<rparr>) \<and>
   handle_command at_1405 ''Hello there'' started =
     (Inr Done,
      started
        \<lparr>transcript := [''Assistant: Ready. Click Start Listening to begin.\<newline>'',
                        ''You: hello there\<newline>'',
                        ''Assistant: I didn't understand that. Try again.\<newline>''],
         spoken := [''I didn't understand that. Try again.'']\<rparr>)"
  using dispatch_first_match_wins [of started at_1405 "''Add task: check the TIME''"]
        dispatch_first_match_wins [of started at_1405 "''Hello there''"]
  by (simp add: spec_dispatch_def spec_first_match_samples lower_samples say_and_show_def
      started_def init_def)

text \<open>
  C3. On a live window, an utterance that contains "time", case ignored, and matches none
  of the four rows before the time row is answered with the clock reading in the 12-hour
  form: the line "The time is HH:MM AM" or "... PM" is displayed as the assistant's and
  spoken, the string reads back as the hour and minute of the reading, at 14:05 the text
  is "The time is 02:05 PM", the result is \<open>Done\<close> and from the idle state the poll stays
  idle with the window open.
\<close>

theorem time_utterance_tells_clock:
  assumes "\<not> destroyed s"
    and "str_in ''time'' (lower utt)"
    and "\<not> (str_in ''add task'' (lower utt) \<or> startswith (lower utt) ''add'')"
    and "\<not> (str_in ''list tasks'' (lower utt) \<or> str_in ''show tasks'' (lower utt))"
    and "\<not> (str_in ''screenshot'' (lower utt) \<or> str_in ''take a screenshot'' (lower utt))"
    and "\<not> (str_in ''open chrome'' (lower utt) \<or> str_in ''open browser'' (lower utt))"
    and "now_hour e < 24" and "now_minute e < 60"
  shows "handle_command e utt s =
           (Inr Done,
            s\<lparr>transcript := transcript s @
                  [''You: '' @ lower utt @ ''\<newline>'',
                   ''Assistant: The time is '' @ strftime_I_M_p (now_hour e) (now_minute e)
                     @ ''\<newline>''],
              spoken := spoken s @
                  [''The time is '' @ strftime_I_M_p (now_hour e) (now_minute e)]\<rparr>) \<and>
         read_12_hour_clock (strftime_I_M_p (now_hour e) (now_minute e)) =
           Some (now_hour e, now_minute e) \<and>
         (now_hour e = 14 \<and> now_minute e = 5 \<longrightarrow>
            ''The time is '' @ strftime_I_M_p (now_hour e) (now_minute e) =
              ''The time is 02:05 PM'') \<and>
         (\<not> awaiting_task s \<longrightarrow>
            fst (check_text_queue_body e utt s) = None \<and>
            \<not> awaiting_task (snd (check_text_queue_body e utt s)) \<and>
            \<not> destroyed (snd (check_text_queue_body e utt s)))"
proof -
  have hc: "handle_command e utt s =
           (Inr Done,
            s\<lparr>transcript := transcript s @
                  [''You: '' @ lower utt @ ''\<newline>'',
                   ''Assistant: The time is '' @ strftime_I_M_p (now_hour e) (now_minute e)
                     @ ''\<newline>''],
              spoken := spoken s @
                  [''The time is '' @ strftime_I_M_p (now_hour e) (now_minute e)]\<rparr>)"
    using assms(1-6)
    by (simp add: handle_command_def Let_def speak_def append_transcript_def)
  have rc: "read_12_hour_clock (strftime_I_M_p (now_hour e) (now_minute e)) =
           Some (now_hour e, now_minute e)"
    using assms(7,8) by (rule read_clock_strftime)
  have idle: "\<not> awaiting_task s \<Longrightarrow>
            fst (check_text_queue_body e utt s) = None \<and>
            \<not> awaiting_task (snd (check_text_queue_body e utt s)) \<and>
            \<not> destroyed (snd (check_text_queue_body e utt s))"
    using assms(1) by (simp add: check_text_queue_body_def hc)
  show ?thesis
    using hc rc idle by (simp add: strftime_1405)
qed

theorem time_utterance_tells_clock_witness:
  "\<not> destroyed started \<and> str_in ''time'' (lower ''What's the time'') \<and>
   now_hour at_1405 = 14 \<and> now_minute at_1405 = 5 \<and>
   handle_command at_1405 ''What's the time'' started =
     (Inr Done,
      started
        \<lparr>transcript := [''Assistant: Ready. Click Start Listening to begin.\<newline>'',
                        ''You: what's the time\<newline>'',
                        ''Assistant: The time is 02:05 PM\<newline>''],
         spoken := [''The time is 02:05 PM'']\<rparr>) \<and>
   read_12_hour_clock ''02:05 PM'' = Some (14, 5) \<and>
   fst (check_text_queue_body at_1405 ''What's the time'' started) = None \<and>
   awaiting_task (snd (check_text_queue_body at_1405 ''What's the time'' started)) = False"
  using time_utterance_tells_clock [of started "''What's the time''" at_1405]
  by (simp add: lower_samples strftime_1405 startswith_def at_1405_def started_def init_def)

text \<open>
  C4. On a live window, an utterance with "list tasks" or "show tasks" in it (and which
  the add-task row does not take first) is answered, after its echo, by the single
  no-tasks line when the task list is empty, and otherwise by one displayed and spoken
  line for each stored task, in the order of the list: for the tasks \<open>t1\<close> then \<open>t2\<close>,
  exactly the two lines for \<open>t1\<close> and \<open>t2\<close>.
\<close>

theorem list_tasks_lines:
  assumes "\<not> destroyed s"
    and "str_in ''list tasks'' (lower utt) \<or> str_in ''show tasks'' (lower utt)"
    and "\<not> (str_in ''add task'' (lower utt) \<or> startswith (lower utt) ''add'')"
  shows "(tasks s = [] \<longrightarrow>
            handle_command e utt s =
              (Inr Done,
               s\<lparr>transcript := transcript s @
                     [''You: '' @ lower utt @ ''\<newline>'',
                      ''Assistant: You have no tasks.\<newline>''],
                 spoken := spoken s @ [''You have no tasks.'']\<rparr>)) \<and>
         (tasks s \<noteq> [] \<longrightarrow>
            handle_command e utt s =
              (Inr Done,
               s\<lparr>transcript := transcript s @
                     [''You: '' @ lower utt @ ''\<newline>''] @
                     map (\<lambda>t. ''Assistant: '' @ t @ ''\<newline>'') (tasks s),
                 spoken := spoken s @ tasks s\<rparr>)) \<and>
         (tasks s = [t1, t2] \<longrightarrow>
            transcript (snd (handle_command e utt s)) =
              transcript s @
                [''You: '' @ lower utt @ ''\<newline>'',
                 ''Assistant: '' @ t1 @ ''\<newline>'', ''Assistant: '' @ t2 @ ''\<newline>''] \<and>
            spoken (snd (handle_command e utt s)) = spoken s @ [t1, t2])"
  using assms
  by (simp add: handle_command_def Let_def for_each_task_eq speak_def append_transcript_def)

theorem list_tasks_lines_witness:
  "handle_command at_1405 ''list tasks'' started =
     (Inr Done,
      started
        \<lparr>transcript := [''Assistant: Ready. Click Start Listening to begin.\<newline>'',
                        ''You: list tasks\<newline>'',
                        ''Assistant: You have no tasks.\<newline>''],
         spoken := [''You have no tasks.'']\<rparr>) \<and>
   handle_command at_1405 ''show tasks'' (started\<lparr>tasks := [''buy milk'', ''call mum'']\<rparr>) =
     (Inr Done,
      started
        \<lparr>tasks := [''buy milk'', ''call mum''],
         transcript := [''Assistant: Ready. Click Start Listening to begin.\<newline>'',
                        ''You: show tasks\<newline>'',
                        ''Assistant: buy milk\<newline>'', ''Assistant: call mum\<newline>''],
         spoken := [''buy milk'', ''call mum'']\<rparr>)"
  using list_tasks_lines [of started "''list tasks''" at_1405]
        list_tasks_lines
          [of "started\<lparr>tasks := [''buy milk'', ''call mum'']\<rparr>" "''show tasks''" at_1405]
  by (simp add: lower_patterns startswith_def started_def init_def)

section \<open>Saving the tasks\<close>

lemma file_write_append: "file_write win (a @ b) = file_write win a @ file_write win b"
  by (simp add: file_write_def)

lemma file_write_newline:
  "file_write win ''\<newline>'' = (if win then [0x0D, 0x0A] else [0x0A])"
  by (simp add: file_write_def newline_char_def utf8_char_def)

lemma write_tasks_lines:
  "write_tasks win ts f =
     f @ concat (map (\<lambda>t. file_write win t @ (if win then [0x0D, 0x0A] else [0x0A])) ts)"
  by (induction ts arbitrary: f) (simp_all add: file_write_append file_write_newline)

lemma write_tasks_eq:
  "write_tasks win ts f = f @ file_write win (concat (map (\<lambda>t. t @ ''\<newline>'') ts))"
  by (induction ts arbitrary: f) (simp_all add: file_write_def)

lemma lines_of_line:
  "CHR ''\<newline>'' \<notin> set t \<Longrightarrow> lines_of (t @ ''\<newline>'' @ rest) = t # lines_of rest"
  by (induction t) (auto simp: lines_of_def)

lemma lines_of_tasks:
  "\<forall>t\<in>set ts. CHR ''\<newline>'' \<notin> set t \<Longrightarrow>
   lines_of (concat (map (\<lambda>t. t @ ''\<newline>'') ts)) = ts"
proof (induction ts)
  case Nil
  show ?case by (simp add: lines_of_def)
next
  case (Cons t ts)
  then show ?case
    using lines_of_line [of t "concat (map (\<lambda>t. t @ ''\<newline>'') ts)"] by simp
qed

lemma unat_byte: "n < 256 \<Longrightarrow> unat (of_nat n :: byte) = n"
  by (simp add: unat_of_nat take_bit_nat_eq_self_iff)

lemma of_char_lt_256: "(of_char c :: nat) < 256"
  by (cases c) (simp add: of_bool_def)

lemma utf8_decode_char: "utf8_decode (utf8_char c @ bs) = map_option ((#) c) (utf8_decode bs)"
proof -
  let ?n = "of_char c :: nat"
  have lt: "?n < 256" by (rule of_char_lt_256)
  show ?thesis
  proof (cases "?n < 128")
    case True
    then have "unat (of_nat ?n :: byte) = ?n" using unat_byte lt by blast
    then show ?thesis using True
      by (cases bs) (auto simp: utf8_char_def)
  next
    case False
    define b1 :: byte where "b1 = of_nat (192 + ?n div 64)"
    define b2 :: byte where "b2 = of_nat (128 + ?n mod 64)"
    have "192 + ?n div 64 < 256" using lt by arith
    then have u1: "unat b1 = 192 + ?n div 64"
      unfolding b1_def by (rule unat_byte)
    have "128 + ?n mod 64 < 256" by arith
    then have u2: "unat b2 = 128 + ?n mod 64"
      unfolding b2_def by (rule unat_byte)
    have c1: "\<not> unat b1 < 128" using u1 by simp
    have c2: "(unat b1 = 194 \<or> unat b1 = 195) \<and> 128 \<le> unat b2 \<and> unat b2 < 192"
      using u1 u2 lt False by arith
    have dec: "utf8_decode (b1 # b2 # bs) =
        map_option ((#) (char_of (64 * (unat b1 - 192) + (unat b2 - 128)))) (utf8_decode bs)"
      using c1 c2 by simp
    have arg: "64 * (unat b1 - 192) + (unat b2 - 128) = ?n"
      using u1 u2 by simp
    have enc: "utf8_char c @ bs = b1 # b2 # bs"
      using False by (simp add: utf8_char_def b1_def b2_def Let_def)
    show ?thesis
      by (simp only: enc dec arg char_of_char)
  qed
qed

lemma utf8_decode_encode: "utf8_decode (concat (map utf8_char str)) = Some str"
  by (induction str) (simp_all add: utf8_decode_char)

text \<open>
  C5. A successful save leaves in \<open>tasks.txt\<close> the tasks in order, each followed by the
  line terminator (a line feed, written as carriage return and line feed on Windows):
  the file is the UTF-8 encoding of the text made of every task with a line feed after
  it, it decodes as UTF-8 to that text, and when no task contains a line feed the lines
  of that text are the tasks. Saving again with nothing changed writes the same file,
  and two states with the same tasks on the same platform get the same file.
\<close>

theorem save_tasks_serialization:
  "tasks_txt (save_tasks Io_ok s) =
     Some (concat (map (\<lambda>t. file_write (windows s) t @
                              (if windows s then [0x0D, 0x0A] else [0x0A])) (tasks s))) \<and>
   tasks_txt (save_tasks Io_ok s) =
     Some (file_write (windows s) (concat (map (\<lambda>t. t @ ''\<newline>'') (tasks s)))) \<and>
   utf8_decode (file_write (windows s) (concat (map (\<lambda>t. t @ ''\<newline>'') (tasks s)))) =
     Some (concat (map (newline_char (windows s))
                     (concat (map (\<lambda>t. t @ ''\<newline>'') (tasks s))))) \<and>
   ((\<forall>t\<in>set (tasks s). CHR ''\<newline>'' \<notin> set t) \<longrightarrow>
      lines_of (concat (map (\<lambda>t. t @ ''\<newline>'') (tasks s))) = tasks s) \<and>
   tasks_txt (save_tasks Io_ok (save_tasks Io_ok s)) = tasks_txt (save_tasks Io_ok s) \<and>
   (tasks s' = tasks s \<and> windows s' = windows s \<longrightarrow>
      tasks_txt (save_tasks Io_ok s') = tasks_txt (save_tasks Io_ok s))"
proof -
  have a: "tasks_txt (save_tasks Io_ok s) =
     Some (concat (map (\<lambda>t. file_write (windows s) t @
                              (if windows s then [0x0D, 0x0A] else [0x0A])) (tasks s)))"
    by (simp add: save_tasks_def write_tasks_lines)
  have b: "tasks_txt (save_tasks Io_ok s) =
     Some (file_write (windows s) (concat (map (\<lambda>t. t @ ''\<newline>'') (tasks s))))"
    by (simp add: save_tasks_def write_tasks_eq)
  have c: "utf8_decode (file_write (windows s) (concat (map (\<lambda>t. t @ ''\<newline>'') (tasks s)))) =
     Some (concat (map (newline_char (windows s))
                     (concat (map (\<lambda>t. t @ ''\<newline>'') (tasks s)))))"
    unfolding file_write_def by (rule utf8_decode_encode)
  have d: "(\<forall>t\<in>set (tasks s). CHR ''\<newline>'' \<notin> set t) \<longrightarrow>
      lines_of (concat (map (\<lambda>t. t @ ''\<newline>'') (tasks s))) = tasks s"
    using lines_of_tasks by blast
  have e: "tasks_txt (save_tasks Io_ok (save_tasks Io_ok s)) = tasks_txt (save_tasks Io_ok s)"
    by (simp add: save_tasks_def)
  have f: "tasks s' = tasks s \<and> windows s' = windows s \<longrightarrow>
      tasks_txt (save_tasks Io_ok s') = tasks_txt (save_tasks Io_ok s)"
    by (simp add: save_tasks_def)
  show ?thesis using a b c d e f by blast
qed

theorem save_tasks_serialization_witness:
  "tasks_txt (save_tasks Io_ok (started\<lparr>tasks := [''hi'', ''yo'']\<rparr>)) =
     Some [104, 105, 10, 121, 111, 10] \<and>
   utf8_decode [104, 105, 10, 121, 111, 10] = Some ''hi\<newline>yo\<newline>'' \<and>
   lines_of ''hi\<newline>yo\<newline>'' = [''hi'', ''yo''] \<and>
   tasks_txt (save_tasks Io_ok (save_tasks Io_ok (started\<lparr>tasks := [''hi'', ''yo'']\<rparr>))) =
     Some [104, 105, 10, 121, 111, 10]"
  using save_tasks_serialization [of "started\<lparr>tasks := [''hi'', ''yo'']\<rparr>" started]
  by (simp add: started_def init_def file_write_def newline_char_def utf8_char_def)

text \<open>
  C6. When the write raises, \<open>save_tasks\<close> shows the error dialog with the exception's
  message and changes nothing in memory: apart from the new dialog and whatever the
  failed attempt left on disk the state is the same, the task list in particular. When
  the write goes through, it shows the confirmation dialog and the task list is the same.
\<close>

theorem save_tasks_dialog_and_store:
  "save_tasks (Io_raises msg left) s =
     s\<lparr>tasks_txt := left, dialogs := dialogs s @ [Showerror ''Error'' msg]\<rparr> \<and>
   tasks (save_tasks (Io_raises msg left) s) = tasks s \<and>
   save_tasks Io_ok s =
     s\<lparr>tasks_txt := Some (write_tasks (windows s) (tasks s) []),
       dialogs := dialogs s @ [Showinfo ''Saved'' ''Tasks saved to tasks.txt'']\<rparr> \<and>
   tasks (save_tasks Io_ok s) = tasks s"
  by (simp add: save_tasks_def)

theorem save_tasks_dialog_and_store_witness:
  "save_tasks (Io_raises ''[Errno 28] No space left on device'' (Some []))
     (started\<lparr>tasks := [''hi'', ''yo'']\<rparr>) =
     started\<lparr>tasks := [''hi'', ''yo''], tasks_txt := Some [],
              dialogs := [Showerror ''Error'' ''[Errno 28] No space left on device'']\<rparr> \<and>
   tasks (save_tasks Io_ok (started\<lparr>tasks := [''hi'', ''yo'']\<rparr>)) = [''hi'', ''yo''] \<and>
   dialogs (save_tasks Io_ok (started\<lparr>tasks := [''hi'', ''yo'']\<rparr>)) =
     [Showinfo ''Saved'' ''Tasks saved to tasks.txt'']"
  using save_tasks_dialog_and_store
          [of "''[Errno 28] No space left on device''" "Some []"
              "started\<lparr>tasks := [''hi'', ''yo'']\<rparr>"]
  by (simp add: started_def init_def)

section \<open>What each operation leaves alone\<close>

lemma handle_command_keeps:
  "vosk_model (snd (handle_command e utt s)) = vosk_model s"
  "listening_flag (snd (handle_command e utt s)) = listening_flag s"
  "tasks (snd (handle_command e utt s)) = tasks s"
  by (simp_all add: handle_command_def Let_def for_each_task_eq speak_def append_transcript_def)

lemma body_keeps:
  "vosk_model (snd (check_text_queue_body e utt s)) = vosk_model s"
  "tasks (snd (check_text_queue_body e utt s)) =
     (if awaiting_task s then tasks s @ [utt] else tasks s)"
  "listening_flag (snd (check_text_queue_body e utt s)) \<Longrightarrow> listening_flag s"
proof -
  obtain r s1 where hc: "handle_command e utt s = (r, s1)" by (cases "handle_command e utt s")
  have k: "vosk_model s1 = vosk_model s" "tasks s1 = tasks s"
          "listening_flag s1 = listening_flag s"
    using handle_command_keeps [where e = e and utt = utt and s = s] by (simp_all add: hc)
  show "vosk_model (snd (check_text_queue_body e utt s)) = vosk_model s"
    using k by (simp add: check_text_queue_body_def hc on_close_def speak_def
        append_transcript_def Let_def split: sum.splits result_state.splits)
  show "tasks (snd (check_text_queue_body e utt s)) =
     (if awaiting_task s then tasks s @ [utt] else tasks s)"
    using k by (simp add: check_text_queue_body_def hc on_close_def speak_def
        append_transcript_def Let_def split: sum.splits result_state.splits)
  show "listening_flag (snd (check_text_queue_body e utt s)) \<Longrightarrow> listening_flag s"
    using k by (simp add: check_text_queue_body_def hc on_close_def speak_def
        append_transcript_def Let_def split: sum.splits result_state.splits if_splits)
qed

lemma drain_keeps:
  "vosk_model (snd (drain es q s)) = vosk_model s \<and>
   prefix (tasks s) (tasks (snd (drain es q s))) \<and>
   (listening_flag (snd (drain es q s)) \<longrightarrow> listening_flag s)"
proof (induction q arbitrary: es s)
  case Nil
  show ?case by simp
next
  case (Cons utt q)
  obtain x s1 where b: "check_text_queue_body (es 0) utt s = (x, s1)"
    by (cases "check_text_queue_body (es 0) utt s")
  have k: "vosk_model s1 = vosk_model s" "prefix (tasks s) (tasks s1)"
          "listening_flag s1 \<Longrightarrow> listening_flag s"
    using body_keeps [where e = "es 0" and utt = utt and s = s] by (simp_all add: b)
  show ?case
  proof (cases x)
    case None
    then have "drain es (utt # q) s = drain (\<lambda>i. es (Suc i)) q s1" by (simp add: b)
    then show ?thesis
      using k Cons.IH [where es = "\<lambda>i. es (Suc i)" and s = s1] prefix_order.trans by auto
  next
    case (Some err)
    then have "drain es (utt # q) s = (q, s1)" by (simp add: b)
    then show ?thesis using k by simp
  qed
qed

lemma check_text_queue_keeps:
  "vosk_model (check_text_queue es s) = vosk_model s"
  "prefix (tasks s) (tasks (check_text_queue es s))"
  "listening_flag (check_text_queue es s) \<Longrightarrow> listening_flag s"
  using drain_keeps [where es = es and q = "text_q s" and s = s]
  by (auto simp: check_text_queue_def split: prod.splits)

lemma buttons_keep:
  "vosk_model (toggle_listen s) = vosk_model s" "tasks (toggle_listen s) = tasks s"
  "\<not> vosk_model s \<Longrightarrow> listening_flag (toggle_listen s) = listening_flag s"
  "vosk_model (stop_listen s) = vosk_model s" "tasks (stop_listen s) = tasks s"
  "\<not> listening_flag (stop_listen s)"
  "vosk_model (save_tasks io s) = vosk_model s" "tasks (save_tasks io s) = tasks s"
  "listening_flag (save_tasks io s) = listening_flag s"
  "vosk_model (on_close ok s) = vosk_model s" "tasks (on_close ok s) = tasks s"
  "listening_flag (on_close ok s) \<Longrightarrow> listening_flag s"
  by (simp_all add: toggle_listen_def stop_listen_def save_tasks_def on_close_def
      append_transcript_def Let_def split: io_result.splits if_splits)

lemma step_keeps:
  "vosk_model (step ev s) = vosk_model s"
  "prefix (tasks s) (tasks (step ev s))"
  "\<not> vosk_model s \<Longrightarrow> listening_flag (step ev s) \<Longrightarrow> listening_flag s"
proof -
  show "vosk_model (step ev s) = vosk_model s"
    by (cases ev)
       (simp_all add: step_def buttons_keep(1,4,7,10) check_text_queue_keeps(1))
  show "prefix (tasks s) (tasks (step ev s))"
    by (cases ev)
       (simp_all add: step_def buttons_keep(2,5,8,11) check_text_queue_keeps(2))
  show "\<not> vosk_model s \<Longrightarrow> listening_flag (step ev s) \<Longrightarrow> listening_flag s"
    by (cases ev)
       (auto simp: step_def buttons_keep(3,6,9) split: if_splits
             dest: buttons_keep(12) check_text_queue_keeps(3))
qed

lemma run_keeps:
  "vosk_model (run evs s) = vosk_model s \<and>
   prefix (tasks s) (tasks (run evs s)) \<and>
   (\<not> vosk_model s \<and> \<not> listening_flag s \<longrightarrow> \<not> listening_flag (run evs s))"
proof (induction evs arbitrary: s)
  case Nil
  show ?case by simp
next
  case (Cons ev evs)
  have a: "vosk_model (step ev s) = vosk_model s" by (rule step_keeps(1))
  have b: "prefix (tasks s) (tasks (step ev s))" by (rule step_keeps(2))
  have c: "\<not> vosk_model s \<Longrightarrow> \<not> listening_flag s \<Longrightarrow> \<not> listening_flag (step ev s)"
    using step_keeps(3) by blast
  have ih: "vosk_model (run evs (step ev s)) = vosk_model (step ev s) \<and>
   prefix (tasks (step ev s)) (tasks (run evs (step ev s))) \<and>
   (\<not> vosk_model (step ev s) \<and> \<not> listening_flag (step ev s) \<longrightarrow>
      \<not> listening_flag (run evs (step ev s)))"
    by (rule Cons.IH)
  have p: "prefix (tasks s) (tasks (run evs (step ev s)))"
    using b ih prefix_order.trans by blast
  show ?case using a c ih p by simp
qed

section \<open>Listening\<close>

text \<open>
  C7. When the model did not load, \<open>toggle_listen\<close> shows the "Model missing" error and
  does nothing else: the listening flag is as before, the window stays as it was and the
  other controls act on the same state (the save button still writes the tasks). No run
  of the program sets the flag: from a state without a model and with the flag clear,
  and so from the start of such a program, the flag is clear after any sequence of
  events.
\<close>

theorem no_model_no_listening:
  assumes "\<not> vosk_model s"
  shows "toggle_listen s =
           s\<lparr>dialogs := dialogs s @
                [Showerror ''Model missing''
                   ''VOSK model not found. Put model folder next to script.'']\<rparr> \<and>
         listening_flag (toggle_listen s) = listening_flag s \<and>
         destroyed (toggle_listen s) = destroyed s \<and>
         tasks_txt (save_tasks Io_ok (toggle_listen s)) =
           Some (write_tasks (windows s) (tasks s) []) \<and>
         (\<not> listening_flag s \<longrightarrow> \<not> listening_flag (run evs s)) \<and>
         \<not> listening_flag (run evs (init False win))"
proof -
  have a: "toggle_listen s =
           s\<lparr>dialogs := dialogs s @
                [Showerror ''Model missing''
                   ''VOSK model not found. Put model folder next to script.'']\<rparr>"
    using assms by (simp add: toggle_listen_def)
  have b: "\<not> listening_flag s \<longrightarrow> \<not> listening_flag (run evs s)"
    using assms run_keeps [of evs s] by blast
  have c: "\<not> listening_flag (run evs (init False win))"
    using run_keeps [of evs "init False win"] by (simp add: init_def)
  show ?thesis using b c by (simp add: a save_tasks_def)
qed

theorem no_model_no_listening_witness:
  "vosk_model (init False False) = False \<and>
   toggle_listen (init False False) =
     (init False False)
       \<lparr>dialogs := [Showerror ''Model missing''
                      ''VOSK model not found. Put model folder next to script.'']\<rparr> \<and>
   listening_flag
     (run [Toggle_listen, Poll (\<lambda>i. at_1405), Save_tasks Io_ok, Toggle_listen, Stop_listen]
        (init False False)) = False"
  using no_model_no_listening
    [of "init False False"
        "[Toggle_listen, Poll (\<lambda>i. at_1405), Save_tasks Io_ok, Toggle_listen, Stop_listen]"
        False]
  by (simp add: init_def del: run.simps)

lemma last_dropWhile: "dropWhile P xs \<noteq> [] \<Longrightarrow> last (dropWhile P xs) = last xs"
  by (induction xs) (auto split: if_splits)

lemma strip_ends:
  assumes "strip s \<noteq> []"
  shows "\<not> isspace (hd (strip s))" and "\<not> isspace (last (strip s))"
proof -
  let ?u = "dropWhile isspace s"
  let ?v = "dropWhile isspace (rev ?u)"
  have v: "?v \<noteq> []" using assms by (simp add: strip_def)
  have "?u = [] \<Longrightarrow> ?v = []" by (simp only: rev.simps(1) dropWhile.simps(1))
  with v have u: "?u \<noteq> []" by blast
  have "last (strip s) = hd ?v" using v by (simp add: strip_def last_rev)
  then show "\<not> isspace (last (strip s))" using v hd_dropWhile by metis
  have "hd (strip s) = last ?v" using v by (simp add: strip_def hd_rev)
  also have "\<dots> = last (rev ?u)" using v by (rule last_dropWhile)
  also have "\<dots> = hd ?u" using u by (simp add: last_rev)
  finally show "\<not> isspace (hd (strip s))" using u hd_dropWhile by metis
qed

lemma stt_worker_eq:
  "stt_worker ws q = q @ filter (\<lambda>t. t \<noteq> []) (map strip (finalized ws))"
proof (induction ws arbitrary: q)
  case Nil
  show ?case by simp
next
  case (Cons w ws)
  show ?case
  proof (cases w)
    case (Partial hyp)
    then show ?thesis by (simp add: Cons stt_worker_body_def)
  next
    case (Final res)
    then show ?thesis
      by (cases res) (simp_all add: Cons stt_worker_body_def Let_def strip_def)
  qed
qed

lemma strip_samples:
  "strip ''  buy milk '' = ''buy milk''" "strip ''   '' = []" "strip [] = []"
  by (simp_all add: strip_def isspace_def)

text \<open>
  C8. One iteration of the worker enqueues nothing for an interim hypothesis and nothing
  for a finalized result without text; for a finalized text it enqueues the stripped
  text, and only when that is not empty. Over any sequence of buffers the queue grows by
  exactly the non-empty stripped finalized texts, in order; every text the worker puts
  into an empty queue is non-empty and neither begins nor ends with white space.
\<close>

theorem stt_worker_never_enqueues_empty:
  "stt_worker_body (Partial hyp) q = q \<and>
   stt_worker_body (Final None) q = q \<and>
   stt_worker_body (Final (Some t)) q = (if strip t = [] then q else q @ [strip t]) \<and>
   stt_worker ws q = q @ filter (\<lambda>t. t \<noteq> []) (map strip (finalized ws)) \<and>
   (\<forall>u\<in>set (stt_worker ws []). u \<noteq> [] \<and> \<not> isspace (hd u) \<and> \<not> isspace (last u))"
proof -
  have a: "stt_worker_body (Partial hyp) q = q" by (simp add: stt_worker_body_def)
  have b: "stt_worker_body (Final None) q = q" by (simp add: stt_worker_body_def strip_def)
  have c: "stt_worker_body (Final (Some t)) q = (if strip t = [] then q else q @ [strip t])"
    by (simp add: stt_worker_body_def Let_def)
  have d: "\<forall>u\<in>set (stt_worker ws []). u \<noteq> [] \<and> \<not> isspace (hd u) \<and> \<not> isspace (last u)"
    using strip_ends by (auto simp: stt_worker_eq)
  show ?thesis using a b c d stt_worker_eq by blast
qed

theorem stt_worker_never_enqueues_empty_witness:
  "stt_worker [Partial ''buy'', Final (Some ''  buy milk ''), Final (Some ''   ''), Final None]
     [] = [''buy milk''] \<and>
   isspace (hd ''buy milk'') = False \<and> isspace (last ''buy milk'') = False"
  using stt_worker_never_enqueues_empty
    [of "''buy''" "[]" "''   ''"
        "[Partial ''buy'', Final (Some ''  buy milk ''), Final (Some ''   ''), Final None]"]
  by (simp add: strip_samples isspace_def del: stt_worker.simps)

text \<open>
  C9. Starting to listen and stopping at once, by the stop button or by a second press of
  the listen button, leaves the task list and \<open>awaiting_task\<close> as they were. Each of
  \<open>toggle_listen\<close> and \<open>stop_listen\<close> changes nothing but the listening flag, the listen
  button, the transcript and (for the missing-model error) the dialogs; with a model and
  the flag clear the first press sets the flag and the second press or the stop button
  clears it.
\<close>

theorem listen_on_off_frame:
  "tasks (stop_listen (toggle_listen s)) = tasks s \<and>
   awaiting_task (stop_listen (toggle_listen s)) = awaiting_task s \<and>
   tasks (toggle_listen (toggle_listen s)) = tasks s \<and>
   awaiting_task (toggle_listen (toggle_listen s)) = awaiting_task s \<and>
   (toggle_listen s)
     \<lparr>listening_flag := listening_flag s, listen_btn := listen_btn s,
      transcript := transcript s, dialogs := dialogs s\<rparr> = s \<and>
   (stop_listen s)
     \<lparr>listening_flag := listening_flag s, listen_btn := listen_btn s,
      transcript := transcript s\<rparr> = s \<and>
   (vosk_model s \<and> \<not> listening_flag s \<longrightarrow>
      listening_flag (toggle_listen s) \<and>
      \<not> listening_flag (toggle_listen (toggle_listen s)) \<and>
      \<not> listening_flag (stop_listen (toggle_listen s)))"
  by (simp add: toggle_listen_def stop_listen_def append_transcript_def)

theorem listen_on_off_frame_witness:
  "tasks (stop_listen (toggle_listen (asked\<lparr>tasks := [''buy milk'']\<rparr>))) = [''buy milk''] \<and>
   awaiting_task (stop_listen (toggle_listen (asked\<lparr>tasks := [''buy milk'']\<rparr>))) = True \<and>
   tasks (toggle_listen (toggle_listen (asked\<lparr>tasks := [''buy milk'']\<rparr>))) = [''buy milk''] \<and>
   awaiting_task (toggle_listen (toggle_listen (asked\<lparr>tasks := [''buy milk'']\<rparr>))) = True \<and>
   listening_flag (toggle_listen (asked\<lparr>tasks := [''buy milk'']\<rparr>)) = True \<and>
   listening_flag (toggle_listen (toggle_listen (asked\<lparr>tasks := [''buy milk'']\<rparr>))) = False"
  using listen_on_off_frame [of "asked\<lparr>tasks := [''buy milk'']\<rparr>"]
  by (simp add: asked_def started_def init_def)

section \<open>The task list only grows\<close>

text \<open>
  C10. \<open>handle_command\<close> never changes the task list, whatever the utterance and
  whichever branch it takes. The body of the poll changes it only when \<open>awaiting_task\<close>
  is set, by appending the utterance. The buttons, the save and the close leave it alone.
  So after a poll, after any event and after any run of the program the old task list is
  a prefix of the new one.
\<close>

theorem tasks_append_only:
  "tasks (snd (handle_command e utt s)) = tasks s \<and>
   tasks (snd (check_text_queue_body e utt s)) =
     (if awaiting_task s then tasks s @ [utt] else tasks s) \<and>
   tasks (toggle_listen s) = tasks s \<and> tasks (stop_listen s) = tasks s \<and>
   tasks (save_tasks io s) = tasks s \<and> tasks (on_close ok s) = tasks s \<and>
   prefix (tasks s) (tasks (check_text_queue es s)) \<and>
   prefix (tasks s) (tasks (step ev s)) \<and>
   prefix (tasks s) (tasks (run evs s))"
  using handle_command_keeps(3) body_keeps(2) buttons_keep(2,5,8,11)
        check_text_queue_keeps(2) step_keeps(2) run_keeps
  by blast

theorem tasks_append_only_witness:
  "tasks (snd (handle_command at_1405 ''exit'' (started\<lparr>tasks := [''buy milk'']\<rparr>))) =
     [''buy milk''] \<and>
   tasks (snd (check_text_queue_body at_1405 ''exit'' (asked\<lparr>tasks := [''buy milk'']\<rparr>))) =
     [''buy milk'', ''exit''] \<and>
   prefix [''buy milk'']
     (tasks (run [Poll (\<lambda>i. at_1405), Save_tasks Io_ok, Close True]
               (started\<lparr>tasks := [''buy milk''],
                        text_q := [''add task'', ''call mum'', ''time'']\<rparr>)))"
  using tasks_append_only
          [of at_1405 "''exit''" "started\<lparr>tasks := [''buy milk'']\<rparr>"]
        tasks_append_only
          [of at_1405 "''exit''" "asked\<lparr>tasks := [''buy milk'']\<rparr>"]
        tasks_append_only
          [of _ _ "started\<lparr>tasks := [''buy milk''],
                           text_q := [''add task'', ''call mum'', ''time'']\<rparr>" _ _ _ _
              "[Poll (\<lambda>i. at_1405), Save_tasks Io_ok, Close True]"]
  by (simp add: asked_def started_def init_def del: run.simps)

section \<open>The scenario of the specification\<close>

lemma scenario_add_task_buy_milk:
  "check_text_queue (\<lambda>i. at_1405) (started\<lparr>text_q := [''add task'', ''buy milk'']\<rparr>) =
     started
       \<lparr>tasks := [''buy milk''],
        transcript := [''Assistant: Ready. Click Start Listening to begin.\<newline>'',
                       ''You: add task\<newline>'',
                       ''Assistant: What is the task?\<newline>'',
                       ''Assistant: Added task: buy milk\<newline>''],
        spoken := [''What is the task?'', ''Task added'']\<rparr>"
  by (simp add: check_text_queue_def check_text_queue_body_def handle_command_def Let_def
      lower_patterns startswith_def speak_def append_transcript_def started_def init_def)

end
